theory Spec2Isabelle
  imports Main "HOL-Library.AList"
begin

section \<open>Python values, exceptions and dictionaries\<close>

text \<open>
  The script \<^verbatim>\<open>runDockerContainer_1.py\<close> is one function, \<^verbatim>\<open>run_docker_container\<close>,
  and a command-line entry point. The function talks to the Docker SDK, to \<^verbatim>\<open>pip\<close> and to
  \<^verbatim>\<open>test -d\<close>; everything else is string splitting and dictionary building.

  The exceptions an SDK call can raise are sorted by the two \<^verbatim>\<open>except\<close> clauses of the
  script: \<open>NotFound\<close> (which docker-py declares as a subclass of \<open>APIError\<close>), any other
  \<open>APIError\<close>, and everything else.
\<close>

datatype docker_exception = NotFound | APIError | OtherException

definition is_NotFound :: "docker_exception \<Rightarrow> bool" where
  "is_NotFound e = (e = NotFound)"

definition is_APIError :: "docker_exception \<Rightarrow> bool" where
  "is_APIError e = (e = NotFound \<or> e = APIError)"

datatype py_exception =
  TypeError
| IndexError
| ValueError
| UnboundLocalError
| OSError
| OtherError
| DockerException docker_exception

text \<open>
  The values the list-like arguments take: \<^verbatim>\<open>None\<close> (an absent command-line flag), a
  list of strings, or a single string. Iterating \<^verbatim>\<open>None\<close> raises \<open>TypeError\<close>;
  iterating a string yields its characters.
\<close>

datatype py_value = PyNone | PyStr string | PyList "string list"

definition py_iter :: "py_value \<Rightarrow> py_exception + string list" where
  "py_iter v =
     (case v of
        PyNone \<Rightarrow> Inl TypeError
      | PyStr s \<Rightarrow> Inr (map (\<lambda>c. [c]) s)
      | PyList xs \<Rightarrow> Inr xs)"

text \<open>\<^verbatim>\<open>xs[i]\<close> for a non-negative index: out of range raises \<open>IndexError\<close>.\<close>

definition py_getitem :: "'a list \<Rightarrow> nat \<Rightarrow> py_exception + 'a" where
  "py_getitem xs i = (if i < length xs then Inr (xs ! i) else Inl IndexError)"

text \<open>
  \<^verbatim>\<open>s.split(sep)\<close> for a one-character separator: it cuts at every occurrence and
  always returns at least one token.
\<close>

fun str_split :: "char \<Rightarrow> string \<Rightarrow> string list" where
  "str_split sep [] = [[]]"
| "str_split sep (x # xs) =
     (if x = sep then [] # str_split sep xs
      else (case str_split sep xs of
              [] \<Rightarrow> [[x]]
            | w # ws \<Rightarrow> (x # w) # ws))"

text \<open>
  A Python \<^verbatim>\<open>dict\<close> keeps its keys in insertion order, and \<^verbatim>\<open>d[k] = v\<close> on a key
  that is present replaces the value in place: an association list under \<open>AList.update\<close>.
\<close>

type_synonym ('k, 'v) dict = "('k \<times> 'v) list"

section \<open>The outside world\<close>

record container =
  cid :: string
  short_id :: string

record volume_bind =
  vb_bind :: string
  vb_mode :: string

text \<open>The keyword arguments of \<^verbatim>\<open>client.containers.run(image_name, detach=True, **params)\<close>.\<close>

record run_params =
  p_name :: "string option"
  p_ports :: "(string, string) dict"
  p_volumes :: "(string, volume_bind) dict"
  p_environment :: "(string, string) dict"

text \<open>Every call that leaves the script, in the order in which it is issued.\<close>

datatype event =
  ImportModule
| PipInstall
| FromEnv
| ListRunning string
| Stop container
| Prune
| TestDir string
| Pull string
| Run string run_params

text \<open>
  What \<^verbatim>\<open>importlib.import_module('docker')\<close> does: it returns the module, raises
  \<open>ImportError\<close>, or raises something the script does not catch.
\<close>

datatype import_result = Imported | ImportError | ImportRaised py_exception

text \<open>
  What a started \<^verbatim>\<open>subprocess.check_call\<close> does: the command exits with status 0, it
  exits with another status (\<open>CalledProcessError\<close>), or the call raises something else
  (an \<open>OSError\<close> when the command cannot be started, for one).
\<close>

datatype check_result = ExitZero | CalledProcessError | CheckRaised py_exception

text \<open>
  The Docker SDK, \<^verbatim>\<open>pip\<close> and the file system are not part of the script: they are a
  parameter, a record of responses over a state \<open>'s\<close> of the outside world.
  \<^item> \<open>import_module\<close>: \<^verbatim>\<open>importlib.import_module('docker')\<close>.
  \<^item> \<open>pip_install\<close>: the command \<^verbatim>\<open>pip install docker\<close>; \<open>test_d\<close>: the command
    \<^verbatim>\<open>test -d\<close> on a path.
  \<^item> the others: the SDK call of that name; \<open>Some e\<close> or \<open>Inl e\<close> is the exception raised.
\<close>

record 's runtime =
  import_module :: "'s \<Rightarrow> import_result \<times> 's"
  pip_install :: "'s \<Rightarrow> check_result \<times> 's"
  from_env :: "'s \<Rightarrow> docker_exception option \<times> 's"
  containers_list :: "string \<Rightarrow> 's \<Rightarrow> (docker_exception + container list) \<times> 's"
  container_stop :: "container \<Rightarrow> 's \<Rightarrow> docker_exception option \<times> 's"
  containers_prune :: "'s \<Rightarrow> docker_exception option \<times> 's"
  test_d :: "string \<Rightarrow> 's \<Rightarrow> check_result \<times> 's"
  images_pull :: "string \<Rightarrow> 's \<Rightarrow> docker_exception option \<times> 's"
  containers_run :: "string \<Rightarrow> run_params \<Rightarrow> 's \<Rightarrow> (docker_exception + container) \<times> 's"

text \<open>The world is the outside state together with the calls issued so far.\<close>

type_synonym 's world = "'s \<times> event list"

definition call :: "event \<Rightarrow> ('s \<Rightarrow> 'r \<times> 's) \<Rightarrow> 's world \<Rightarrow> 'r \<times> 's world" where
  "call ev f w = (case f (fst w) of (r, s') \<Rightarrow> (r, (s', snd w @ [ev])))"

text \<open>
  \<^verbatim>\<open>subprocess.check_call(args)\<close>: an argument with a NUL character raises
  \<open>ValueError\<close> before any command is started; otherwise the command is run.
\<close>

definition check_call ::
  "event \<Rightarrow> string list \<Rightarrow> ('s \<Rightarrow> check_result \<times> 's) \<Rightarrow> 's world
     \<Rightarrow> check_result \<times> 's world" where
  "check_call ev args f w =
     (if list_ex (\<lambda>a. CHR 0x00 \<in> set a) args then (CheckRaised ValueError, w)
      else call ev f w)"

text \<open>
  The outside world answers \<open>r\<close> to each of the requests \<open>xs\<close>, made one after the
  other from the state \<open>s\<close>: the state they leave, or \<open>None\<close> when one of the answers
  is not \<open>r\<close>.
\<close>

fun all_answer :: "('a \<Rightarrow> 's \<Rightarrow> 'r \<times> 's) \<Rightarrow> 'r \<Rightarrow> 'a list \<Rightarrow> 's \<Rightarrow> 's option" where
  "all_answer f r [] s = Some s"
| "all_answer f r (x # xs) s =
     (case f x s of (r', s') \<Rightarrow> if r' = r then all_answer f r xs s' else None)"

text \<open>What a list of calls holds: the images pulled, the containers run, the containers stopped.\<close>

fun pulls :: "event list \<Rightarrow> string list" where
  "pulls [] = []"
| "pulls (Pull img # evs) = img # pulls evs"
| "pulls (ev # evs) = pulls evs"

fun runs :: "event list \<Rightarrow> (string \<times> run_params) list" where
  "runs [] = []"
| "runs (Run img kwargs # evs) = (img, kwargs) # runs evs"
| "runs (ev # evs) = runs evs"

fun stops :: "event list \<Rightarrow> container list" where
  "stops [] = []"
| "stops (Stop c # evs) = c # stops evs"
| "stops (ev # evs) = stops evs"

section \<open>Control flow\<close>

text \<open>
  Every \<^verbatim>\<open>return\<close> of the function returns \<^verbatim>\<open>None\<close>; the exit point records which one
  ended the call, named after the message printed just before it
  (\<open>Running\<close> carries the \<^verbatim>\<open>short_id\<close> that is printed).
\<close>

datatype exit_point =
  InstallError
| DrainError
| VolumeError
| PullError
| Running string
| RunError

datatype outcome = Returned exit_point | Raised py_exception

datatype 'a flow = Next 'a | Exit outcome

section \<open>\<^verbatim>\<open>run_docker_container\<close>\<close>

subsection \<open>Lines 26 to 38: the parameter dictionary\<close>

record params =
  d_name :: "string option"
  d_protocol :: string
  d_ports :: py_value
  d_volumes :: py_value
  d_environment :: py_value

definition default_params :: "string option \<Rightarrow> params" where
  "default_params name =
     \<lparr>d_name = name, d_protocol = ''tcp'', d_ports = PyList [], d_volumes = PyList [],
      d_environment = PyList []\<rparr>"

subsection \<open>Lines 55 to 66: the docker module and the client\<close>

text \<open>
  The flag handed on says whether the local variable \<^verbatim>\<open>docker\<close> is bound: after a
  successful \<^verbatim>\<open>pip install\<close> the module is not imported again. Only \<open>ImportError\<close>
  and \<open>CalledProcessError\<close> are caught.
\<close>

definition import_docker :: "'s runtime \<Rightarrow> 's world \<Rightarrow> bool flow \<times> 's world" where
  "import_docker rt w =
     (case call ImportModule (import_module rt) w of
        (Imported, w1) \<Rightarrow> (Next True, w1)
      | (ImportRaised e, w1) \<Rightarrow> (Exit (Raised e), w1)
      | (ImportError, w1) \<Rightarrow>
          (case check_call PipInstall [''pip'', ''install'', ''docker''] (pip_install rt) w1 of
             (CalledProcessError, w2) \<Rightarrow> (Exit (Returned InstallError), w2)
           | (CheckRaised e, w2) \<Rightarrow> (Exit (Raised e), w2)
           | (ExitZero, w2) \<Rightarrow> (Next False, w2)))"

definition docker_from_env :: "'s runtime \<Rightarrow> bool \<Rightarrow> 's world \<Rightarrow> unit flow \<times> 's world" where
  "docker_from_env rt docker_bound w =
     (if docker_bound then
        (case call FromEnv (from_env rt) w of
           (None, w1) \<Rightarrow> (Next (), w1)
         | (Some e, w1) \<Rightarrow> (Exit (Raised (DockerException e)), w1))
      else (Exit (Raised UnboundLocalError), w))"

subsection \<open>Lines 69 to 86: stopping the running containers\<close>

fun stop_all ::
  "'s runtime \<Rightarrow> container list \<Rightarrow> 's world \<Rightarrow> docker_exception option \<times> 's world" where
  "stop_all rt [] w = (None, w)"
| "stop_all rt (c # cs) w =
     (case call (Stop c) (container_stop rt c) w of
        (None, w1) \<Rightarrow> stop_all rt cs w1
      | (Some e, w1) \<Rightarrow> (Some e, w1))"

text \<open>The body of the \<^verbatim>\<open>try\<close>: the exception that leaves it, if any.\<close>

definition drain_try ::
  "'s runtime \<Rightarrow> string \<Rightarrow> 's world \<Rightarrow> docker_exception option \<times> 's world" where
  "drain_try rt image_name w =
     (case call (ListRunning image_name) (containers_list rt image_name) w of
        (Inl e, w1) \<Rightarrow> (Some e, w1)
      | (Inr runningContainers, w1) \<Rightarrow>
          (if runningContainers \<noteq> [] then
             (case stop_all rt runningContainers w1 of
                (Some e, w2) \<Rightarrow> (Some e, w2)
              | (None, w2) \<Rightarrow> call Prune (containers_prune rt) w2)
           else (None, w1)))"

definition drain :: "'s runtime \<Rightarrow> string \<Rightarrow> 's world \<Rightarrow> unit flow \<times> 's world" where
  "drain rt image_name w =
     (case drain_try rt image_name w of
        (None, w1) \<Rightarrow> (Next (), w1)
      | (Some e, w1) \<Rightarrow>
          (if is_NotFound e then (Next (), w1)
           else if is_APIError e then (Exit (Returned DrainError), w1)
           else (Exit (Raised (DockerException e)), w1)))"

text \<open>Lines 55 to 86 together: everything before the arguments are looked at.\<close>

definition drain_phase :: "'s runtime \<Rightarrow> string \<Rightarrow> 's world \<Rightarrow> unit flow \<times> 's world" where
  "drain_phase rt image_name w =
     (case import_docker rt w of
        (Exit out, w1) \<Rightarrow> (Exit out, w1)
      | (Next docker_bound, w1) \<Rightarrow>
          (case docker_from_env rt docker_bound w1 of
             (Exit out, w2) \<Rightarrow> (Exit out, w2)
           | (Next client, w2) \<Rightarrow> drain rt image_name w2))"

subsection \<open>Lines 89 to 97: ports\<close>

fun ports_loop ::
  "string \<Rightarrow> string list \<Rightarrow> (string, string) dict \<Rightarrow> py_exception + (string, string) dict" where
  "ports_loop protocol [] ports_dict = Inr ports_dict"
| "ports_loop protocol (port # rest) ports_dict =
     (let ports = str_split CHR '':'' port in
      case py_getitem ports 0 of
        Inl e \<Rightarrow> Inl e
      | Inr host_ports \<Rightarrow>
          (case py_getitem ports 1 of
             Inl e \<Rightarrow> Inl e
           | Inr container_ports \<Rightarrow>
               ports_loop protocol rest
                 (AList.update (container_ports @ ''/'' @ protocol) host_ports ports_dict)))"

definition convert_ports :: "string \<Rightarrow> py_value \<Rightarrow> py_exception + (string, string) dict" where
  "convert_ports protocol ports =
     (case py_iter ports of
        Inl e \<Rightarrow> Inl e
      | Inr ps \<Rightarrow> ports_loop protocol ps [])"

subsection \<open>Lines 99 to 115: volumes\<close>

text \<open>
  The directory check of line 109 catches \<open>CalledProcessError\<close> only; whatever else
  \<^verbatim>\<open>check_call\<close> raises leaves the function.
\<close>

fun volumes_loop ::
  "'s runtime \<Rightarrow> bool \<Rightarrow> string list \<Rightarrow> (string, volume_bind) dict \<Rightarrow> 's world
     \<Rightarrow> (string, volume_bind) dict flow \<times> 's world" where
  "volumes_loop rt clean_host_volume_dirs [] volumes_dict w = (Next volumes_dict, w)"
| "volumes_loop rt clean_host_volume_dirs (volume # rest) volumes_dict w =
     (let parts = str_split CHR '':'' volume in
      case py_getitem parts 0 of
        Inl e \<Rightarrow> (Exit (Raised e), w)
      | Inr host_path \<Rightarrow>
          (case py_getitem parts 1 of
             Inl e \<Rightarrow> (Exit (Raised e), w)
           | Inr container_path \<Rightarrow>
               (if clean_host_volume_dirs then
                  (case check_call (TestDir host_path) [''test'', ''-d'', host_path]
                          (test_d rt host_path) w of
                     (CalledProcessError, w1) \<Rightarrow> (Exit (Returned VolumeError), w1)
                   | (CheckRaised e, w1) \<Rightarrow> (Exit (Raised e), w1)
                   | (ExitZero, w1) \<Rightarrow>
                       volumes_loop rt clean_host_volume_dirs rest
                         (AList.update host_path
                            \<lparr>vb_bind = container_path, vb_mode = ''rw''\<rparr> volumes_dict) w1)
                else
                  volumes_loop rt clean_host_volume_dirs rest
                    (AList.update host_path
                       \<lparr>vb_bind = container_path, vb_mode = ''rw''\<rparr> volumes_dict) w)))"

definition convert_volumes ::
  "'s runtime \<Rightarrow> bool \<Rightarrow> py_value \<Rightarrow> 's world \<Rightarrow> (string, volume_bind) dict flow \<times> 's world" where
  "convert_volumes rt clean_host_volume_dirs volumes w =
     (case py_iter volumes of
        Inl e \<Rightarrow> (Exit (Raised e), w)
      | Inr vs \<Rightarrow> volumes_loop rt clean_host_volume_dirs vs [] w)"

subsection \<open>Lines 118 to 126: environment\<close>

fun environment_loop ::
  "string list \<Rightarrow> (string, string) dict \<Rightarrow> py_exception + (string, string) dict" where
  "environment_loop [] environment_dict = Inr environment_dict"
| "environment_loop (env # rest) environment_dict =
     (let parts = str_split CHR ''='' env in
      case py_getitem parts 0 of
        Inl e \<Rightarrow> Inl e
      | Inr var_name \<Rightarrow>
          (case py_getitem parts 1 of
             Inl e \<Rightarrow> Inl e
           | Inr var_value \<Rightarrow>
               environment_loop rest (AList.update var_name var_value environment_dict)))"

definition convert_environment :: "py_value \<Rightarrow> py_exception + (string, string) dict" where
  "convert_environment environment =
     (case py_iter environment of
        Inl e \<Rightarrow> Inl e
      | Inr es \<Rightarrow> environment_loop es [])"

subsection \<open>Lines 130 to 148: pull and run\<close>

definition pull_image :: "'s runtime \<Rightarrow> string \<Rightarrow> 's world \<Rightarrow> unit flow \<times> 's world" where
  "pull_image rt image_name w =
     (case call (Pull image_name) (images_pull rt image_name) w of
        (None, w1) \<Rightarrow> (Next (), w1)
      | (Some e, w1) \<Rightarrow>
          (if is_APIError e then (Exit (Returned PullError), w1)
           else (Exit (Raised (DockerException e)), w1)))"

text \<open>
  A container object is always truthy, so \<^verbatim>\<open>if container\<close> holds whenever \<^verbatim>\<open>run\<close>
  returns. After an \<open>APIError\<close> the handler prints and the function falls off its end.
\<close>

definition run_container ::
  "'s runtime \<Rightarrow> string \<Rightarrow> run_params \<Rightarrow> 's world \<Rightarrow> outcome \<times> 's world" where
  "run_container rt image_name kwargs w =
     (case call (Run image_name kwargs) (containers_run rt image_name kwargs) w of
        (Inr container, w1) \<Rightarrow> (Returned (Running (short_id container)), w1)
      | (Inl e, w1) \<Rightarrow>
          (if is_APIError e then (Returned RunError, w1)
           else (Raised (DockerException e), w1)))"

text \<open>Lines 89 to 148 together: the conversions, then pull and run.\<close>

definition convert_and_run ::
  "'s runtime \<Rightarrow> string \<Rightarrow> string \<Rightarrow> params \<Rightarrow> bool \<Rightarrow> 's world \<Rightarrow> outcome \<times> 's world" where
  "convert_and_run rt image_name protocol params clean_host_volume_dirs w =
     (case convert_ports protocol (d_ports params) of
        Inl e \<Rightarrow> (Raised e, w)
      | Inr ports_dict \<Rightarrow>
          (case convert_volumes rt clean_host_volume_dirs (d_volumes params) w of
             (Exit out, w1) \<Rightarrow> (out, w1)
           | (Next volumes_dict, w1) \<Rightarrow>
               (case convert_environment (d_environment params) of
                  Inl e \<Rightarrow> (Raised e, w1)
                | Inr environment_dict \<Rightarrow>
                    (case pull_image rt image_name w1 of
                       (Exit out, w2) \<Rightarrow> (out, w2)
                     | (Next u, w2) \<Rightarrow>
                         run_container rt image_name
                           \<lparr>p_name = d_name params, p_ports = ports_dict,
                            p_volumes = volumes_dict, p_environment = environment_dict\<rparr> w2))))"

subsection \<open>The function\<close>

text \<open>
  \<^verbatim>\<open>params\<close> is the copy of the defaults with \<^verbatim>\<open>ports\<close> and \<^verbatim>\<open>volumes\<close> stored in
  it; \<^verbatim>\<open>protocol = params.pop('protocol')\<close> then rebinds the local \<^verbatim>\<open>protocol\<close>.
  The arguments \<open>protocol\<close> and \<open>environment\<close> are not read again.
\<close>

definition run_docker_container ::
  "'s runtime \<Rightarrow> string \<Rightarrow> string option \<Rightarrow> string \<Rightarrow> py_value \<Rightarrow> py_value \<Rightarrow> bool \<Rightarrow> py_value
     \<Rightarrow> 's world \<Rightarrow> outcome \<times> 's world" where
  "run_docker_container rt image_name name protocol ports volumes clean_host_volume_dirs
     environment w =
     (let params = (default_params name)\<lparr>d_ports := ports, d_volumes := volumes\<rparr>;
          protocol = d_protocol params
      in case drain_phase rt image_name w of
           (Exit out, w1) \<Rightarrow> (out, w1)
         | (Next u, w1) \<Rightarrow>
             convert_and_run rt image_name protocol params clean_host_volume_dirs w1)"

section \<open>The command-line entry point, lines 150 to 165\<close>

text \<open>
  What \<^verbatim>\<open>parse_known_args\<close> hands back: the namespace, where a flag that is not given
  is \<^verbatim>\<open>None\<close> (\<open>--port\<close>, \<open>--volume\<close> and \<open>--environment\<close> take one or more
  values), and the list of arguments it does not know.
\<close>

record cli_args =
  a_image_name :: string
  a_name :: "string option"
  a_protocol :: string
  a_port :: py_value
  a_volume :: py_value
  a_environment :: py_value
  a_clean_host_volume_dirs :: bool

text \<open>
  Line 162: each unknown argument is split at every \<^verbatim>\<open>=\<close> and unpacked into
  \<^verbatim>\<open>k, v\<close>, which raises \<open>ValueError\<close> unless there are exactly two tokens.
\<close>

fun unknown_args_loop ::
  "string list \<Rightarrow> (string, string) dict \<Rightarrow> py_exception + (string, string) dict" where
  "unknown_args_loop [] unknown_args_dict = Inr unknown_args_dict"
| "unknown_args_loop (arg # rest) unknown_args_dict =
     (case str_split CHR ''='' arg of
        [k, v] \<Rightarrow> unknown_args_loop rest (AList.update k v unknown_args_dict)
      | _ \<Rightarrow> Inl ValueError)"

text \<open>
  Line 163: the call with \<^verbatim>\<open>**unknown_args_dict\<close>. A key that names an argument already
  given, or no parameter at all, raises \<open>TypeError\<close> before the body runs; the two
  remaining parameters arrive as strings.
\<close>

definition run_with_kwargs ::
  "'s runtime \<Rightarrow> cli_args \<Rightarrow> (string, string) dict \<Rightarrow> 's world \<Rightarrow> outcome \<times> 's world" where
  "run_with_kwargs rt args unknown_args_dict w =
     (if list_all (\<lambda>k. k = ''clean_host_volume_dirs'' \<or> k = ''environment'')
           (map fst unknown_args_dict)
      then
        run_docker_container rt (a_image_name args) (a_name args) (a_protocol args)
          (a_port args) (a_volume args)
          (case map_of unknown_args_dict ''clean_host_volume_dirs'' of
             None \<Rightarrow> False
           | Some v \<Rightarrow> v \<noteq> [])
          (case map_of unknown_args_dict ''environment'' of
             None \<Rightarrow> PyList []
           | Some v \<Rightarrow> PyStr v)
          w
      else (Raised TypeError, w))"

text \<open>Line 165 runs only when the call of line 163 has returned.\<close>

definition main ::
  "'s runtime \<Rightarrow> cli_args \<Rightarrow> string list \<Rightarrow> 's world \<Rightarrow> outcome \<times> 's world" where
  "main rt args unknown_args w =
     (case unknown_args_loop unknown_args [] of
        Inl e \<Rightarrow> (Raised e, w)
      | Inr unknown_args_dict \<Rightarrow>
          (case run_with_kwargs rt args unknown_args_dict w of
             (Raised e, w1) \<Rightarrow> (Raised e, w1)
           | (Returned x, w1) \<Rightarrow>
               run_docker_container rt (a_image_name args) (a_name args) (a_protocol args)
                 (a_port args) (a_volume args) False (PyList []) w1))"

section \<open>A daemon for the examples\<close>

text \<open>
  One instance of the outside world: the docker module is installed, the daemon keeps the
  list of running containers with their images, pulling always succeeds, and every
  \<^verbatim>\<open>run\<close> starts a container with a fresh id. Its two parameters are the directories
  that exist and the answer of \<^verbatim>\<open>stop\<close> for each container.
\<close>

record fake_state =
  running :: "(container \<times> string) list"
  started :: nat

definition fake_container :: "nat \<Rightarrow> container" where
  "fake_container n =
     \<lparr>cid = replicate (Suc n) CHR ''c'', short_id = replicate (Suc n) CHR ''c''\<rparr>"

definition fake_runtime ::
  "string list \<Rightarrow> (container \<Rightarrow> docker_exception option) \<Rightarrow> fake_state runtime" where
  "fake_runtime dirs stop_response =
     \<lparr>import_module = (\<lambda>s. (Imported, s)),
      pip_install = (\<lambda>s. (ExitZero, s)),
      from_env = (\<lambda>s. (None, s)),
      containers_list =
        (\<lambda>image s. (Inr (map fst (filter (\<lambda>r. snd r = image) (running s))), s)),
      container_stop =
        (\<lambda>c s. case stop_response c of
                 None \<Rightarrow> (None, s\<lparr>running := filter (\<lambda>r. fst r \<noteq> c) (running s)\<rparr>)
               | Some e \<Rightarrow> (Some e, s)),
      containers_prune = (\<lambda>s. (None, s)),
      test_d = (\<lambda>path s. (if path \<in> set dirs then ExitZero else CalledProcessError, s)),
      images_pull = (\<lambda>image s. (None, s)),
      containers_run =
        (\<lambda>image kwargs s.
           (Inr (fake_container (started s)),
            \<lparr>running = running s @ [(fake_container (started s), image)],
             started = Suc (started s)\<rparr>))\<rparr>"

text \<open>A daemon on which every \<^verbatim>\<open>stop\<close> succeeds and \<^verbatim>\<open>/data\<close> is the only directory.\<close>

definition healthy_runtime :: "fake_state runtime" where
  "healthy_runtime = fake_runtime [''/data''] (\<lambda>c. None)"

text \<open>A daemon on which stopping the container \<^verbatim>\<open>cc\<close> fails with an \<open>APIError\<close>.\<close>

definition stuck_stop :: "container \<Rightarrow> docker_exception option" where
  "stuck_stop c = (if cid c = ''cc'' then Some APIError else None)"

definition stuck_runtime :: "fake_state runtime" where
  "stuck_runtime = fake_runtime [''/data''] stuck_stop"

definition idle :: "fake_state world" where
  "idle = (\<lparr>running = [], started = 0\<rparr>, [])"

text \<open>Two containers of \<^verbatim>\<open>nginx\<close> are running.\<close>

definition busy :: "fake_state world" where
  "busy =
     (\<lparr>running = [(fake_container 0, ''nginx''), (fake_container 1, ''nginx'')],
       started = 2\<rparr>, [])"

text \<open>Three containers of \<^verbatim>\<open>nginx\<close> are running.\<close>

definition crowded :: "fake_state world" where
  "crowded =
     (\<lparr>running = [(fake_container 0, ''nginx''), (fake_container 1, ''nginx''),
                   (fake_container 2, ''nginx'')],
       started = 3\<rparr>, [])"

text \<open>The command line \<^verbatim>\<open>nginx --port 8080:80\<close>.\<close>

definition nginx_args :: cli_args where
  "nginx_args =
     \<lparr>a_image_name = ''nginx'', a_name = None, a_protocol = ''tcp'',
      a_port = PyList [''8080:80''], a_volume = PyNone, a_environment = PyNone,
      a_clean_host_volume_dirs = False\<rparr>"

section \<open>Splitting strings\<close>

lemma str_split_not_Nil: "str_split sep s \<noteq> []"
  by (induction s) (auto split: list.splits)

lemma hd_str_split: "hd (str_split sep s) = takeWhile (\<lambda>c. c \<noteq> sep) s"
  by (induction s) (auto simp: str_split_not_Nil split: list.splits)

lemma length_str_split:
  "length (str_split sep s) = Suc (length (filter (\<lambda>c. c = sep) s))"
  by (induction s) (auto split: list.splits)

lemma str_split_two: "(Suc 0 < length (str_split sep s)) = (sep \<in> set s)"
  by (simp add: length_str_split filter_empty_conv)

lemma tl_str_split:
  "sep \<in> set s \<Longrightarrow> tl (str_split sep s) = str_split sep (tl (dropWhile (\<lambda>c. c \<noteq> sep) s))"
  by (induction s) (auto split: list.splits)

text \<open>The first token is the text before the first separator.\<close>

lemma getitem0: "py_getitem (str_split sep s) 0 = Inr (takeWhile (\<lambda>c. c \<noteq> sep) s)"
  using str_split_not_Nil [of sep s] hd_str_split [of sep s]
  by (cases "str_split sep s") (auto simp: py_getitem_def)

text \<open>There is a second token exactly when the separator occurs.\<close>

lemma getitem1_none: "sep \<notin> set s \<Longrightarrow> py_getitem (str_split sep s) (Suc 0) = Inl IndexError"
  using str_split_two [of sep s] by (simp add: py_getitem_def)

lemma getitem1:
  assumes "sep \<in> set s"
  shows "py_getitem (str_split sep s) (Suc 0) =
           Inr (takeWhile (\<lambda>c. c \<noteq> sep) (tl (dropWhile (\<lambda>c. c \<noteq> sep) s)))"
proof -
  have len: "Suc 0 < length (str_split sep s)"
    using assms by (simp add: str_split_two)
  have "str_split sep s ! Suc 0 = hd (tl (str_split sep s))"
    using len by (cases "str_split sep s") (auto simp: hd_conv_nth)
  also have "\<dots> = takeWhile (\<lambda>c. c \<noteq> sep) (tl (dropWhile (\<lambda>c. c \<noteq> sep) s))"
    by (simp add: tl_str_split [OF assms] hd_str_split)
  finally show ?thesis
    using len by (simp add: py_getitem_def)
qed




section \<open>The port loop\<close>

lemma ports_loop_ok:
  "list_all (\<lambda>p. CHR '':'' \<in> set p) ps \<Longrightarrow> \<exists>d'. ports_loop protocol ps d = Inr d'"
  by (induction ps arbitrary: d) (simp_all add: getitem0 getitem1)

lemma ports_loop_bad:
  "\<not> list_all (\<lambda>p. CHR '':'' \<in> set p) ps \<Longrightarrow> ports_loop protocol ps d = Inl IndexError"
proof (induction ps arbitrary: d)
  case Nil
  then show ?case by simp
next
  case (Cons p ps)
  show ?case
  proof (cases "CHR '':'' \<in> set p")
    case True
    with Cons show ?thesis by (simp add: getitem0 getitem1)
  next
    case False
    then show ?thesis by (simp add: getitem0 getitem1_none)
  qed
qed

text \<open>On strings that all contain \<^verbatim>\<open>:\<close> the loop is a fold of dictionary stores.\<close>

lemma ports_loop_fold:
  "list_all (\<lambda>p. CHR '':'' \<in> set p) ps \<Longrightarrow>
   ports_loop protocol ps d =
     Inr (fold (\<lambda>p. AList.update
                  (takeWhile (\<lambda>c. c \<noteq> CHR '':'') (tl (dropWhile (\<lambda>c. c \<noteq> CHR '':'') p))
                     @ ''/'' @ protocol)
                  (takeWhile (\<lambda>c. c \<noteq> CHR '':'') p)) ps d)"
  by (induction ps arbitrary: d) (simp_all add: getitem0 getitem1)

lemma update_fresh: "k \<notin> fst ` set d \<Longrightarrow> AList.update k v d = d @ [(k, v)]"
  by (induction d) auto

text \<open>Stores under keys that are new and pairwise distinct append, in order.\<close>

lemma fold_update_fresh:
  "distinct (map fst kvs) \<Longrightarrow> fst ` set kvs \<inter> fst ` set d = {} \<Longrightarrow>
   fold (\<lambda>kv. AList.update (fst kv) (snd kv)) kvs d = d @ kvs"
proof (induction kvs arbitrary: d)
  case Nil
  then show ?case by simp
next
  case (Cons kv kvs)
  from Cons.prems have fresh: "fst kv \<notin> fst ` set d" by auto
  from Cons.prems have "fst ` set kvs \<inter> fst ` set (d @ [kv]) = {}" by auto
  with Cons.IH [of "d @ [kv]"] Cons.prems(1) have
    "fold (\<lambda>kv. AList.update (fst kv) (snd kv)) kvs (d @ [kv]) = (d @ [kv]) @ kvs"
    by simp
  with fresh show ?case
    by (simp add: update_fresh)
qed

lemma fold_update_distinct:
  assumes "distinct (map k ps)"
  shows "fold (\<lambda>p. AList.update (k p) (h p)) ps [] = map (\<lambda>p. (k p, h p)) ps"
proof -
  have "fold (\<lambda>p. AList.update (k p) (h p)) ps [] =
        fold (\<lambda>kv. AList.update (fst kv) (snd kv)) (map (\<lambda>p. (k p, h p)) ps) []"
    by (simp add: fold_map comp_def)
  also have "\<dots> = [] @ map (\<lambda>p. (k p, h p)) ps"
    using assms by (intro fold_update_fresh) (simp_all add: comp_def)
  finally show ?thesis by simp
qed

lemma distinct_with_suffix:
  assumes "distinct (map c ps)"
  shows "distinct (map (\<lambda>p. c p @ sfx) ps)"
proof -
  have "map (\<lambda>p. c p @ sfx) ps = map (\<lambda>x. x @ sfx) (map c ps)"
    by simp
  moreover have "distinct (map (\<lambda>x. x @ sfx) (map c ps))"
    using assms by (simp only: distinct_map) (auto simp: inj_on_def)
  ultimately show ?thesis by (simp add: comp_def)
qed

text \<open>
  The strings \<^verbatim>\<open>"8080"\<close>, \<^verbatim>\<open>"8080:"\<close> and \<^verbatim>\<open>"a:b:c"\<close>: the first raises
  \<open>IndexError\<close>, the other two are turned into a mapping.
\<close>

theorem malformed_ports_not_rejected:
  "convert_ports ''tcp'' (PyList [''8080'']) = Inl IndexError
   \<and> convert_ports ''tcp'' (PyList [''8080:'']) = Inr [(''/tcp'', ''8080'')]
   \<and> convert_ports ''tcp'' (PyList [''a:b:c'']) = Inr [(''b/tcp'', ''a'')]"
  by code_simp

text \<open>
  C5, as the code has it. The port loop checks nothing. A list with a string that has no
  \<^verbatim>\<open>:\<close> makes it raise \<open>IndexError\<close> at \<^verbatim>\<open>ports[1]\<close>. A list whose strings all contain
  a \<^verbatim>\<open>:\<close> is converted, and the dictionary is the one built by going through the list
  in order and storing, for each string, under the key made of the text between its
  first and second \<^verbatim>\<open>:\<close> (the container port), \<^verbatim>\<open>/\<close> and the protocol, the text before
  its first \<^verbatim>\<open>:\<close> (the host port): a later string with the same container port
  replaces the value stored by an earlier one, and when the container ports are pairwise
  distinct the dictionary has exactly one entry for each string, in the order of the list.
  Either token may be empty and whatever follows a second \<^verbatim>\<open>:\<close> is dropped.
\<close>

theorem convert_ports_unvalidated:
  "(\<not> list_all (\<lambda>p. CHR '':'' \<in> set p) ps \<longrightarrow>
      convert_ports protocol (PyList ps) = Inl IndexError)
   \<and> (list_all (\<lambda>p. CHR '':'' \<in> set p) ps \<longrightarrow>
        convert_ports protocol (PyList ps) =
          Inr (fold (\<lambda>p. AList.update
                       (takeWhile (\<lambda>c. c \<noteq> CHR '':'') (tl (dropWhile (\<lambda>c. c \<noteq> CHR '':'') p))
                          @ ''/'' @ protocol)
                       (takeWhile (\<lambda>c. c \<noteq> CHR '':'') p)) ps []))
   \<and> (list_all (\<lambda>p. CHR '':'' \<in> set p) ps
        \<and> distinct (map (\<lambda>p. takeWhile (\<lambda>c. c \<noteq> CHR '':'')
                                (tl (dropWhile (\<lambda>c. c \<noteq> CHR '':'') p))) ps) \<longrightarrow>
        convert_ports protocol (PyList ps) =
          Inr (map (\<lambda>p. (takeWhile (\<lambda>c. c \<noteq> CHR '':'') (tl (dropWhile (\<lambda>c. c \<noteq> CHR '':'') p))
                            @ ''/'' @ protocol,
                          takeWhile (\<lambda>c. c \<noteq> CHR '':'') p)) ps))"
proof (intro conjI impI)
  assume "\<not> list_all (\<lambda>p. CHR '':'' \<in> set p) ps"
  then show "convert_ports protocol (PyList ps) = Inl IndexError"
    by (simp add: convert_ports_def py_iter_def ports_loop_bad)
next
  assume "list_all (\<lambda>p. CHR '':'' \<in> set p) ps"
  then show "convert_ports protocol (PyList ps) =
          Inr (fold (\<lambda>p. AList.update
                       (takeWhile (\<lambda>c. c \<noteq> CHR '':'') (tl (dropWhile (\<lambda>c. c \<noteq> CHR '':'') p))
                          @ ''/'' @ protocol)
                       (takeWhile (\<lambda>c. c \<noteq> CHR '':'') p)) ps [])"
    by (simp add: convert_ports_def py_iter_def ports_loop_fold)
next
  assume a: "list_all (\<lambda>p. CHR '':'' \<in> set p) ps
        \<and> distinct (map (\<lambda>p. takeWhile (\<lambda>c. c \<noteq> CHR '':'')
                                (tl (dropWhile (\<lambda>c. c \<noteq> CHR '':'') p))) ps)"
  then have "distinct (map (\<lambda>p. takeWhile (\<lambda>c. c \<noteq> CHR '':'')
                 (tl (dropWhile (\<lambda>c. c \<noteq> CHR '':'') p)) @ ''/'' @ protocol) ps)"
    by (intro distinct_with_suffix) simp
  from fold_update_distinct [OF this, of "\<lambda>p. takeWhile (\<lambda>c. c \<noteq> CHR '':'') p"] a
  show "convert_ports protocol (PyList ps) =
          Inr (map (\<lambda>p. (takeWhile (\<lambda>c. c \<noteq> CHR '':'') (tl (dropWhile (\<lambda>c. c \<noteq> CHR '':'') p))
                            @ ''/'' @ protocol,
                          takeWhile (\<lambda>c. c \<noteq> CHR '':'') p)) ps)"
    by (simp add: convert_ports_def py_iter_def ports_loop_fold)
qed

theorem convert_ports_unvalidated_witness:
  "convert_ports ''udp'' (PyList [''8080'', ''1:2'']) = Inl IndexError
   \<and> convert_ports ''udp'' (PyList [''8080:80'', ''53:53:x'', ''9090:80'']) =
       Inr [(''80/udp'', ''9090''), (''53/udp'', ''53'')]
   \<and> convert_ports ''udp'' (PyList [''8080:80'', ''53:53:x'', '':443'']) =
       Inr [(''80/udp'', ''8080''), (''53/udp'', ''53''), (''443/udp'', [])]"
  using convert_ports_unvalidated [of "[''8080'', ''1:2'']" "''udp''"]
    convert_ports_unvalidated [of "[''8080:80'', ''53:53:x'', ''9090:80'']" "''udp''"]
    convert_ports_unvalidated [of "[''8080:80'', ''53:53:x'', '':443'']" "''udp''"]
  by simp

section \<open>The environment loop\<close>




text \<open>
  C2, on the code. The loop splits at every \<^verbatim>\<open>=\<close> and keeps \<^verbatim>\<open>parts[1]\<close>, so
  \<^verbatim>\<open>"KEY=a=b"\<close> binds \<^verbatim>\<open>KEY\<close> to \<^verbatim>\<open>a\<close>, not to \<^verbatim>\<open>a=b\<close>.
\<close>

theorem environment_value_cut_at_second_equals:
  "convert_environment (PyList [''KEY=a=b'']) = Inr [(''KEY'', ''a'')]"
  by code_simp




section \<open>What each step adds to the trace\<close>

lemma pulls_append: "pulls (xs @ ys) = pulls xs @ pulls ys"
  by (induction xs rule: pulls.induct) simp_all

lemma runs_append: "runs (xs @ ys) = runs xs @ runs ys"
  by (induction xs rule: runs.induct) simp_all

lemma stops_append: "stops (xs @ ys) = stops xs @ stops ys"
  by (induction xs rule: stops.induct) simp_all

lemma call_trace: "call ev f w = (r, w') \<Longrightarrow> snd w' = snd w @ [ev]"
  by (auto simp: call_def split: prod.splits)

lemma stop_all_trace:
  "stop_all rt cs w = (r, w') \<Longrightarrow>
     \<exists>k. k \<le> length cs \<and> snd w' = snd w @ map Stop (take k cs)
         \<and> (r = None \<longrightarrow> k = length cs) \<and> (r \<noteq> None \<longrightarrow> 0 < k)"
proof (induction cs arbitrary: w)
  case Nil
  then show ?case by auto
next
  case (Cons c cs)
  obtain r1 w1 where c1: "call (Stop c) (container_stop rt c) w = (r1, w1)"
    by (cases "call (Stop c) (container_stop rt c) w")
  have t1: "snd w1 = snd w @ [Stop c]" using call_trace [OF c1] .
  show ?case
  proof (cases r1)
    case None
    with Cons.prems c1 have "stop_all rt cs w1 = (r, w')" by simp
    from Cons.IH [OF this] obtain k where
      k: "k \<le> length cs" "snd w' = snd w1 @ map Stop (take k cs)"
         "r = None \<longrightarrow> k = length cs" by blast
    then show ?thesis using t1
      by (intro exI [of _ "Suc k"]) simp
  next
    case (Some e)
    with Cons.prems c1 have "r = Some e" "w' = w1" by simp_all
    then show ?thesis using t1
      by (intro exI [of _ "Suc 0"]) simp
  qed
qed

lemma pulls_map_Stop: "pulls (map Stop cs) = []"
  by (induction cs) simp_all

lemma runs_map_Stop: "runs (map Stop cs) = []"
  by (induction cs) simp_all

lemma stop_all_quiet:
  assumes "stop_all rt cs w = (r, w')"
  shows "pulls (snd w') = pulls (snd w) \<and> runs (snd w') = runs (snd w)"
  using stop_all_trace [OF assms]
  by (auto simp: pulls_append runs_append pulls_map_Stop runs_map_Stop)

lemma check_call_trace:
  "check_call ev args f w = (r, w') \<Longrightarrow> snd w' = snd w \<or> snd w' = snd w @ [ev]"
  by (auto simp: check_call_def split: if_splits dest: call_trace)

lemma import_docker_quiet:
  "import_docker rt w = (r, w') \<Longrightarrow> pulls (snd w') = pulls (snd w) \<and> runs (snd w') = runs (snd w)"
  unfolding import_docker_def
  by (auto split: prod.splits import_result.splits check_result.splits
      dest!: call_trace check_call_trace simp: pulls_append runs_append)

lemma docker_from_env_quiet:
  "docker_from_env rt b w = (r, w') \<Longrightarrow> pulls (snd w') = pulls (snd w) \<and> runs (snd w') = runs (snd w)"
  unfolding docker_from_env_def
  by (auto split: prod.splits option.splits if_splits dest!: call_trace simp: pulls_append runs_append)

lemma drain_try_quiet:
  "drain_try rt img w = (r, w') \<Longrightarrow> pulls (snd w') = pulls (snd w) \<and> runs (snd w') = runs (snd w)"
  unfolding drain_try_def
  by (auto split: prod.splits option.splits sum.splits if_splits
      dest!: call_trace stop_all_quiet simp: pulls_append runs_append)

lemma drain_quiet:
  "drain rt img w = (r, w') \<Longrightarrow> pulls (snd w') = pulls (snd w) \<and> runs (snd w') = runs (snd w)"
  unfolding drain_def
  by (auto split: prod.splits option.splits if_splits dest!: drain_try_quiet)

lemma drain_phase_quiet:
  "drain_phase rt img w = (r, w') \<Longrightarrow> pulls (snd w') = pulls (snd w) \<and> runs (snd w') = runs (snd w)"
  unfolding drain_phase_def
  by (auto split: prod.splits flow.splits
      dest!: import_docker_quiet docker_from_env_quiet drain_quiet)

lemma volumes_loop_quiet:
  "volumes_loop rt clean vs d w = (r, w') \<Longrightarrow>
     pulls (snd w') = pulls (snd w) \<and> runs (snd w') = runs (snd w)"
proof (induction vs arbitrary: d w)
  case Nil
  then show ?case by simp
next
  case (Cons v vs)
  show ?case
  proof (cases "CHR '':'' \<in> set v")
    case False
    with Cons.prems show ?thesis by (simp add: getitem0 getitem1_none)
  next
    case True
    show ?thesis
    proof (cases clean)
      case False
      with True Cons.prems Cons.IH show ?thesis
        by (simp add: getitem0 getitem1)
    next
      case clean: True
      obtain b w1 where c1:
        "check_call (TestDir (takeWhile (\<lambda>c. c \<noteq> CHR '':'') v))
           [''test'', ''-d'', takeWhile (\<lambda>c. c \<noteq> CHR '':'') v]
           (test_d rt (takeWhile (\<lambda>c. c \<noteq> CHR '':'') v)) w = (b, w1)"
        by (cases "check_call (TestDir (takeWhile (\<lambda>c. c \<noteq> CHR '':'') v))
           [''test'', ''-d'', takeWhile (\<lambda>c. c \<noteq> CHR '':'') v]
           (test_d rt (takeWhile (\<lambda>c. c \<noteq> CHR '':'') v)) w")
      have t1: "pulls (snd w1) = pulls (snd w) \<and> runs (snd w1) = runs (snd w)"
        using check_call_trace [OF c1] by (auto simp: pulls_append runs_append)
      show ?thesis
      proof (cases b)
        case ExitZero
        with True clean c1 Cons.prems have
          "volumes_loop rt clean vs
             (AList.update (takeWhile (\<lambda>c. c \<noteq> CHR '':'') v)
               \<lparr>vb_bind = takeWhile (\<lambda>c. c \<noteq> CHR '':'') (tl (dropWhile (\<lambda>c. c \<noteq> CHR '':'') v)),
                vb_mode = ''rw''\<rparr> d) w1 = (r, w')"
          by (simp add: getitem0 getitem1)
        from Cons.IH [OF this] t1 show ?thesis by simp
      next
        case CalledProcessError
        with True clean c1 Cons.prems t1 show ?thesis
          by (simp add: getitem0 getitem1)
      next
        case (CheckRaised e)
        with True clean c1 Cons.prems t1 show ?thesis
          by (simp add: getitem0 getitem1)
      qed
    qed
  qed
qed

lemma convert_volumes_quiet:
  "convert_volumes rt clean volumes w = (r, w') \<Longrightarrow>
     pulls (snd w') = pulls (snd w) \<and> runs (snd w') = runs (snd w)"
  unfolding convert_volumes_def
  by (auto split: sum.splits dest!: volumes_loop_quiet)

lemma pull_image_trace:
  "pull_image rt img w = (r, w') \<Longrightarrow> snd w' = snd w @ [Pull img]"
  unfolding pull_image_def
  by (auto split: prod.splits option.splits if_splits dest!: call_trace)

lemma run_container_trace:
  "run_container rt img kwargs w = (out, w') \<Longrightarrow> snd w' = snd w @ [Run img kwargs]"
  unfolding run_container_def
  by (auto split: prod.splits sum.splits if_splits dest!: call_trace)

text \<open>What lines 89 to 148 add to the trace: at most one pull, then at most one run.\<close>

lemma convert_and_run_trace:
  assumes "convert_and_run rt img protocol params clean w = (out, w')"
  shows "(pulls (snd w') = pulls (snd w) \<or> pulls (snd w') = pulls (snd w) @ [img])
       \<and> (runs (snd w') = runs (snd w)
          \<or> (\<exists>pd vd ed. convert_environment (d_environment params) = Inr ed
                \<and> runs (snd w') = runs (snd w) @
                     [(img, \<lparr>p_name = d_name params, p_ports = pd, p_volumes = vd,
                             p_environment = ed\<rparr>)]))"
  using assms unfolding convert_and_run_def
  by (auto split: sum.splits prod.splits flow.splits
      dest!: convert_volumes_quiet pull_image_trace run_container_trace
      simp: pulls_append runs_append)

lemma run_docker_container_trace:
  assumes "run_docker_container rt img name protocol ports volumes clean environment w = (out, w')"
  shows "(pulls (snd w') = pulls (snd w) \<or> pulls (snd w') = pulls (snd w) @ [img])
       \<and> (runs (snd w') = runs (snd w)
          \<or> (\<exists>pd vd. runs (snd w') = runs (snd w) @
                     [(img, \<lparr>p_name = name, p_ports = pd, p_volumes = vd,
                             p_environment = []\<rparr>)]))"
proof -
  obtain r w1 where Pair: "drain_phase rt img w = (r, w1)"
    by (cases "drain_phase rt img w")
  show ?thesis
  proof (cases r)
    case (Exit x)
    with Pair assms drain_phase_quiet [OF Pair] show ?thesis
      by (simp add: run_docker_container_def Let_def)
  next
    case (Next u)
    with Pair assms have
      "convert_and_run rt img ''tcp''
         ((default_params name)\<lparr>d_ports := ports, d_volumes := volumes\<rparr>) clean w1 = (out, w')"
      by (simp add: run_docker_container_def Let_def default_params_def)
    from convert_and_run_trace [OF this] drain_phase_quiet [OF Pair] show ?thesis
      by (auto simp: default_params_def convert_environment_def py_iter_def)
  qed
qed

lemma run_docker_container_after_drain:
  "drain_phase rt img w = (Next u, w1) \<Longrightarrow>
   run_docker_container rt img name protocol ports volumes clean environment w =
     convert_and_run rt img ''tcp''
       ((default_params name)\<lparr>d_ports := ports, d_volumes := volumes\<rparr>) clean w1"
  by (simp add: run_docker_container_def Let_def default_params_def)

lemma run_docker_container_drain_exit:
  "drain_phase rt img w = (Exit out, w1) \<Longrightarrow>
   run_docker_container rt img name protocol ports volumes clean environment w = (out, w1)"
  by (simp add: run_docker_container_def Let_def)

text \<open>One call of the function pulls at most once and runs at most once.\<close>

lemma one_call_pulls_and_runs_at_most_once:
  assumes "run_docker_container rt img name protocol ports volumes clean environment (s, [])
             = (out, w')"
  shows "length (pulls (snd w')) \<le> 1 \<and> length (runs (snd w')) \<le> 1"
  using run_docker_container_trace [OF assms] by auto

lemma import_docker_grows: "import_docker rt w = (r, w') \<Longrightarrow> \<exists>evs. snd w' = snd w @ evs"
  unfolding import_docker_def
  by (auto split: prod.splits import_result.splits check_result.splits
      dest!: call_trace check_call_trace)

lemma docker_from_env_grows: "docker_from_env rt b w = (r, w') \<Longrightarrow> \<exists>evs. snd w' = snd w @ evs"
  unfolding docker_from_env_def
  by (auto split: prod.splits option.splits if_splits dest!: call_trace)

lemma drain_try_lists:
  "drain_try rt img w = (r, w') \<Longrightarrow> \<exists>evs. snd w' = snd w @ ListRunning img # evs"
  unfolding drain_try_def
  by (auto split: prod.splits option.splits sum.splits if_splits
      dest!: call_trace stop_all_trace)

lemma drain_lists:
  "drain rt img w = (r, w') \<Longrightarrow> \<exists>evs. snd w' = snd w @ ListRunning img # evs"
  unfolding drain_def
  by (auto split: prod.splits option.splits if_splits dest!: drain_try_lists)

lemma drain_phase_lists:
  assumes "drain_phase rt img w = (Next u, w1)"
  shows "\<exists>evs. snd w1 = snd w @ evs \<and> ListRunning img \<in> set evs"
proof -
  from assms obtain b wa wb where
    a: "import_docker rt w = (Next b, wa)" and
    b: "docker_from_env rt b wa = (Next (), wb)" and
    c: "drain rt img wb = (Next u, w1)"
    unfolding drain_phase_def
    by (auto split: prod.splits flow.splits)
  from import_docker_grows [OF a] docker_from_env_grows [OF b] drain_lists [OF c]
  obtain e1 e2 e3 where "snd w1 = snd w @ (e1 @ e2 @ ListRunning img # e3)"
    by auto
  then show ?thesis
    by (intro exI [of _ "e1 @ e2 @ ListRunning img # e3"]) simp
qed

section \<open>The volume loop\<close>

text \<open>A list with a string that has no \<^verbatim>\<open>:\<close> never gets through the loop.\<close>

lemma volumes_loop_no_colon:
  "\<not> list_all (\<lambda>v. CHR '':'' \<in> set v) vs \<Longrightarrow> volumes_loop rt clean vs d w = (r, w') \<Longrightarrow>
     \<exists>x. r = Exit x"
proof (induction vs arbitrary: d w)
  case Nil
  then show ?case by simp
next
  case (Cons v vs)
  show ?case
  proof (cases "CHR '':'' \<in> set v")
    case False
    with Cons.prems show ?thesis by (auto simp: getitem0 getitem1_none)
  next
    case True
    with Cons.prems(1) have rest: "\<not> list_all (\<lambda>v. CHR '':'' \<in> set v) vs" by simp
    from True Cons.prems(2) Cons.IH [OF rest] show ?thesis
      by (auto simp: getitem0 getitem1 split: if_splits prod.splits check_result.splits)
  qed
qed

text \<open>Without the directory check, strings that contain a \<^verbatim>\<open>:\<close> are passed over.\<close>

lemma volumes_loop_unchecked_prefix:
  "list_all (\<lambda>v. CHR '':'' \<in> set v) good \<Longrightarrow>
     \<exists>d'. volumes_loop rt False (good @ rest) d w = volumes_loop rt False rest d' w"
proof (induction good arbitrary: d)
  case Nil
  then show ?case by auto
next
  case (Cons v good)
  then show ?case by (simp add: getitem0 getitem1)
qed

text \<open>
  With the directory check, strings that contain a \<^verbatim>\<open>:\<close>, whose host paths have no NUL
  and pass \<^verbatim>\<open>test -d\<close> one after the other, are passed over; each check is a call.
\<close>

lemma volumes_loop_checked_prefix:
  "list_all (\<lambda>v. CHR '':'' \<in> set v) good \<Longrightarrow>
   list_all (\<lambda>v. CHR 0x00 \<notin> set (takeWhile (\<lambda>c. c \<noteq> CHR '':'') v)) good \<Longrightarrow>
   all_answer (test_d rt) ExitZero (map (takeWhile (\<lambda>c. c \<noteq> CHR '':'')) good) s = Some s' \<Longrightarrow>
     \<exists>d'. volumes_loop rt True (good @ rest) d (s, tr) =
            volumes_loop rt True rest d'
              (s', tr @ map TestDir (map (takeWhile (\<lambda>c. c \<noteq> CHR '':'')) good))"
proof (induction good arbitrary: d s tr)
  case Nil
  then show ?case by auto
next
  case (Cons v good)
  obtain r1 s1 where t: "test_d rt (takeWhile (\<lambda>c. c \<noteq> CHR '':'') v) s = (r1, s1)"
    by (cases "test_d rt (takeWhile (\<lambda>c. c \<noteq> CHR '':'') v) s")
  with Cons.prems(3) have r1: "r1 = ExitZero"
    and rest: "all_answer (test_d rt) ExitZero (map (takeWhile (\<lambda>c. c \<noteq> CHR '':'')) good) s1
                 = Some s'"
    by (auto split: if_splits)
  from Cons.prems(1,2) have g: "list_all (\<lambda>v. CHR '':'' \<in> set v) good"
    "list_all (\<lambda>v. CHR 0x00 \<notin> set (takeWhile (\<lambda>c. c \<noteq> CHR '':'') v)) good"
    "CHR '':'' \<in> set v" "CHR 0x00 \<notin> set (takeWhile (\<lambda>c. c \<noteq> CHR '':'') v)"
    by simp_all
  have step: "check_call (TestDir (takeWhile (\<lambda>c. c \<noteq> CHR '':'') v))
       [''test'', ''-d'', takeWhile (\<lambda>c. c \<noteq> CHR '':'') v]
       (test_d rt (takeWhile (\<lambda>c. c \<noteq> CHR '':'') v)) (s, tr) =
     (ExitZero, (s1, tr @ [TestDir (takeWhile (\<lambda>c. c \<noteq> CHR '':'') v)]))"
    using g(4) t r1 by (simp add: check_call_def call_def)
  from Cons.IH [OF g(1) g(2) rest] obtain d' where
    "volumes_loop rt True (good @ rest)
       (AList.update (takeWhile (\<lambda>c. c \<noteq> CHR '':'') v)
          \<lparr>vb_bind = takeWhile (\<lambda>c. c \<noteq> CHR '':'') (tl (dropWhile (\<lambda>c. c \<noteq> CHR '':'') v)),
           vb_mode = ''rw''\<rparr> d)
       (s1, tr @ [TestDir (takeWhile (\<lambda>c. c \<noteq> CHR '':'') v)]) =
     volumes_loop rt True rest d'
       (s', (tr @ [TestDir (takeWhile (\<lambda>c. c \<noteq> CHR '':'') v)])
             @ map TestDir (map (takeWhile (\<lambda>c. c \<noteq> CHR '':'')) good))"
    by blast
  with step g(3) show ?case
    by (intro exI [of _ d']) (simp add: getitem0 getitem1)
qed

text \<open>The first string without a \<^verbatim>\<open>:\<close> raises \<open>IndexError\<close> at \<^verbatim>\<open>parts[1]\<close>.\<close>

lemma volumes_loop_at_no_colon:
  "CHR '':'' \<notin> set v \<Longrightarrow> volumes_loop rt clean (v # rest) d w = (Exit (Raised IndexError), w)"
  by (simp add: getitem0 getitem1_none)

text \<open>A failed \<^verbatim>\<open>test -d\<close> ends the call at line 113.\<close>

lemma volumes_loop_at_failed_check:
  assumes "CHR '':'' \<in> set v" "CHR 0x00 \<notin> set (takeWhile (\<lambda>c. c \<noteq> CHR '':'') v)"
    and "test_d rt (takeWhile (\<lambda>c. c \<noteq> CHR '':'') v) s = (CalledProcessError, s')"
  shows "volumes_loop rt True (v # rest) d (s, tr) =
           (Exit (Returned VolumeError), (s', tr @ [TestDir (takeWhile (\<lambda>c. c \<noteq> CHR '':'') v)]))"
  using assms by (simp add: getitem0 getitem1 check_call_def call_def)

section \<open>The stop loop\<close>

text \<open>Containers whose \<^verbatim>\<open>stop\<close> succeeds, one after the other, are passed over.\<close>

lemma stop_all_prefix:
  "all_answer (container_stop rt) None pre s = Some s' \<Longrightarrow>
     stop_all rt (pre @ rest) (s, tr) = stop_all rt rest (s', tr @ map Stop pre)"
proof (induction pre arbitrary: s tr)
  case Nil
  then show ?case by simp
next
  case (Cons c pre)
  obtain r1 s1 where t: "container_stop rt c s = (r1, s1)"
    by (cases "container_stop rt c s")
  with Cons.prems have r1: "r1 = None"
    and rest: "all_answer (container_stop rt) None pre s1 = Some s'"
    by (auto split: if_splits)
  from Cons.IH [OF rest, of "tr @ [Stop c]"] t r1 show ?case
    by (simp add: call_def)
qed

text \<open>The first \<^verbatim>\<open>stop\<close> that raises ends the loop.\<close>

lemma stop_all_at_failure:
  "container_stop rt c s = (Some e, s') \<Longrightarrow>
     stop_all rt (c # rest) (s, tr) = (Some e, (s', tr @ [Stop c]))"
  by (simp add: call_def)

section \<open>The command line: C1 and C10\<close>

text \<open>
  C1, on the code. With no container of \<^verbatim>\<open>nginx\<close> running, the command line
  \<^verbatim>\<open>nginx --port 8080:80\<close> leaves \<^verbatim>\<open>volumes\<close> at \<^verbatim>\<open>None\<close> and the first call raises
  \<open>TypeError\<close> before any pull or run. With \<^verbatim>\<open>--volume /data:/data\<close> added, lines 163
  and 165 both call the function: two pulls, two runs, and the second call stops the
  container the first one started.
\<close>

theorem main_crashes_or_runs_twice:
  "main healthy_runtime nginx_args [] idle =
     (Raised TypeError,
      (\<lparr>running = [], started = 0\<rparr>, [ImportModule, FromEnv, ListRunning ''nginx'']))
   \<and> main healthy_runtime (nginx_args\<lparr>a_volume := PyList [''/data:/data'']\<rparr>) [] idle =
     (Returned (Running ''cc''),
      (\<lparr>running = [(fake_container 1, ''nginx'')], started = 2\<rparr>,
       [ImportModule, FromEnv, ListRunning ''nginx'', Pull ''nginx'',
        Run ''nginx''
          \<lparr>p_name = None, p_ports = [(''80/tcp'', ''8080'')],
           p_volumes = [(''/data'', \<lparr>vb_bind = ''/data'', vb_mode = ''rw''\<rparr>)],
           p_environment = []\<rparr>,
        ImportModule, FromEnv, ListRunning ''nginx'', Stop (fake_container 0), Prune,
        Pull ''nginx'',
        Run ''nginx''
          \<lparr>p_name = None, p_ports = [(''80/tcp'', ''8080'')],
           p_volumes = [(''/data'', \<lparr>vb_bind = ''/data'', vb_mode = ''rw''\<rparr>)],
           p_environment = []\<rparr>]))"
  by code_simp

lemma convert_and_run_ports_None:
  "d_ports params = PyNone \<Longrightarrow>
   convert_and_run rt img protocol params clean w = (Raised TypeError, w)"
  by (simp add: convert_and_run_def convert_ports_def py_iter_def)

lemma convert_and_run_volumes_None:
  assumes "d_ports params = PyList ps" "list_all (\<lambda>p. CHR '':'' \<in> set p) ps"
    and "d_volumes params = PyNone"
  shows "convert_and_run rt img protocol params clean w = (Raised TypeError, w)"
proof -
  from ports_loop_ok [OF assms(2), of protocol "[]"] obtain pd where
    "ports_loop protocol ps [] = Inr pd" by blast
  with assms(1,3) show ?thesis
    by (simp add: convert_and_run_def convert_ports_def convert_volumes_def py_iter_def)
qed

text \<open>
  C10. When \<^verbatim>\<open>--port\<close> is not given, or \<^verbatim>\<open>--port\<close> is given with strings that all
  contain \<^verbatim>\<open>:\<close> and \<^verbatim>\<open>--volume\<close> is not, the argument is \<^verbatim>\<open>None\<close> and the loop over it
  raises \<open>TypeError\<close>. Nothing catches it: once the drain phase of the first call is
  through, the program ends with \<open>TypeError\<close> in the world the drain phase left, so
  the running containers have been stopped and nothing has been pulled or run. (The
  unknown arguments, if any, are ones that line 162 and the call of line 163 accept.)
\<close>

theorem absent_flag_raises_TypeError:
  assumes flag: "a_port args = PyNone
               \<or> (a_port args = PyList ps \<and> list_all (\<lambda>p. CHR '':'' \<in> set p) ps
                  \<and> a_volume args = PyNone)"
    and unknown: "unknown_args_loop unknown_args [] = Inr kwargs"
    and accepted: "list_all (\<lambda>k. k = ''clean_host_volume_dirs'' \<or> k = ''environment'')
                     (map fst kwargs)"
    and drained: "drain_phase rt (a_image_name args) w = (Next (), w1)"
  shows "main rt args unknown_args w = (Raised TypeError, w1)"
proof -
  have "run_docker_container rt (a_image_name args) (a_name args) (a_protocol args)
          (a_port args) (a_volume args) clean environment w = (Raised TypeError, w1)"
    for clean environment
    using flag
    by (auto simp: run_docker_container_after_drain [OF drained] default_params_def
        convert_and_run_ports_None convert_and_run_volumes_None)
  then show ?thesis
    using unknown accepted by (simp add: main_def run_with_kwargs_def)
qed

theorem absent_flag_raises_TypeError_witness:
  "main healthy_runtime nginx_args [''clean_host_volume_dirs=1''] busy =
     (Raised TypeError,
      (\<lparr>running = [], started = 2\<rparr>,
       [ImportModule, FromEnv, ListRunning ''nginx'', Stop (fake_container 0),
        Stop (fake_container 1), Prune]))"
proof -
  have f: "a_port nginx_args = PyNone
         \<or> (a_port nginx_args = PyList [''8080:80'']
            \<and> list_all (\<lambda>p. CHR '':'' \<in> set p) [''8080:80''] \<and> a_volume nginx_args = PyNone)"
    by (simp add: nginx_args_def)
  have u: "unknown_args_loop [''clean_host_volume_dirs=1''] [] =
             Inr [(''clean_host_volume_dirs'', ''1'')]"
    by code_simp
  have a: "list_all (\<lambda>k. k = ''clean_host_volume_dirs'' \<or> k = ''environment'')
             (map fst [(''clean_host_volume_dirs'', ''1'')])"
    by simp
  have d: "drain_phase healthy_runtime (a_image_name nginx_args) busy =
     (Next (), (\<lparr>running = [], started = 2\<rparr>,
       [ImportModule, FromEnv, ListRunning ''nginx'', Stop (fake_container 0),
        Stop (fake_container 1), Prune]))"
    by code_simp
  from absent_flag_raises_TypeError [OF f u a d] show ?thesis .
qed

section \<open>The protocol and the environment: C4 and C9\<close>

text \<open>
  C4, on the code. Called with \<^verbatim>\<open>protocol='udp'\<close> and the port \<^verbatim>\<open>8080:80\<close>, the function
  runs the container with the port key \<^verbatim>\<open>80/tcp\<close>: line 38 rebinds \<^verbatim>\<open>protocol\<close> to the
  entry of \<^verbatim>\<open>default_params\<close>, which is always \<^verbatim>\<open>tcp\<close>.
\<close>

theorem protocol_argument_overwritten:
  "run_docker_container healthy_runtime ''nginx'' None ''udp'' (PyList [''8080:80''])
     (PyList []) False (PyList []) idle =
   (Returned (Running ''c''),
    (\<lparr>running = [(fake_container 0, ''nginx'')], started = 1\<rparr>,
     [ImportModule, FromEnv, ListRunning ''nginx'', Pull ''nginx'',
      Run ''nginx''
        \<lparr>p_name = None, p_ports = [(''80/tcp'', ''8080'')], p_volumes = [],
         p_environment = []\<rparr>]))"
  by code_simp

text \<open>The same for every call: the protocol argument has no effect.\<close>

lemma protocol_argument_unused:
  "run_docker_container rt img name protocol ports volumes clean environment w =
   run_docker_container rt img name ''tcp'' ports volumes clean environment w"
  by (simp add: run_docker_container_def)

text \<open>
  C9. The \<^verbatim>\<open>environment\<close> argument is never stored in \<^verbatim>\<open>params\<close>: a call behaves as
  it does with the empty list, and every \<^verbatim>\<open>run\<close> it issues carries an empty
  \<^verbatim>\<open>environment\<close> dictionary.
\<close>

theorem environment_argument_unused:
  "run_docker_container rt img name protocol ports volumes clean environment w =
     run_docker_container rt img name protocol ports volumes clean (PyList []) w
   \<and> list_all (\<lambda>(i, kwargs). p_environment kwargs = [])
       (runs (snd (snd
          (run_docker_container rt img name protocol ports volumes clean environment (s, [])))))"
proof -
  obtain out w' where r:
    "run_docker_container rt img name protocol ports volumes clean environment (s, []) = (out, w')"
    by (cases "run_docker_container rt img name protocol ports volumes clean environment (s, [])")
  from run_docker_container_trace [OF r] have
    "list_all (\<lambda>(i, kwargs). p_environment kwargs = []) (runs (snd w'))"
    by auto
  with r show ?thesis
    by (simp add: run_docker_container_def)
qed

theorem environment_argument_unused_witness:
  "runs (snd (snd (run_docker_container healthy_runtime ''nginx'' None ''tcp''
      (PyList [''8080:80'']) (PyList []) False (PyList [''A=1'']) idle))) =
     [(''nginx'', \<lparr>p_name = None, p_ports = [(''80/tcp'', ''8080'')], p_volumes = [],
         p_environment = []\<rparr>)]"
  using environment_argument_unused [of healthy_runtime "''nginx''" None "''tcp''"
      "PyList [''8080:80'']" "PyList []" False "PyList [''A=1'']" idle "fst idle"]
  by code_simp

section \<open>Draining: C6\<close>

text \<open>
  Three containers are running; stopping the first succeeds and stopping the second
  raises an \<open>APIError\<close>. The call returns there: the third container is not stopped,
  nothing is pruned, pulled or run.
\<close>

theorem stop_failure_aborts_without_pull:
  "run_docker_container stuck_runtime ''nginx'' None ''tcp'' (PyList [''8080:80''])
     (PyList []) False (PyList []) crowded =
   (Returned DrainError,
    (\<lparr>running = [(fake_container 1, ''nginx''), (fake_container 2, ''nginx'')],
      started = 3\<rparr>,
     [ImportModule, FromEnv, ListRunning ''nginx'', Stop (fake_container 0),
      Stop (fake_container 1)]))"
  by code_simp

text \<open>
  C6, as the code has it. The docker module is there, the client is obtained, and the
  containers listed are \<open>pre\<close>, then \<open>c\<close>, then \<open>post\<close>; stopping those of \<open>pre\<close>
  succeeds, one after the other, and stopping \<open>c\<close> raises \<open>e\<close>. Then the calls issued
  are the list, a stop for each container of \<open>pre\<close> and the stop of \<open>c\<close>, and no more
  in the drain: no container of \<open>post\<close> is stopped and \<^verbatim>\<open>prune\<close> is not called. If
  \<open>e\<close> is an \<open>APIError\<close> other than \<open>NotFound\<close> the call returns at once, however
  many stops succeeded before; if it is \<open>NotFound\<close> the call goes on to the conversions
  and the pull; any other exception leaves the function. Nothing is recorded.
\<close>

theorem drain_ends_at_first_failed_stop:
  assumes imp: "import_module rt s0 = (Imported, sa)"
    and env: "from_env rt sa = (None, sb)"
    and lst: "containers_list rt img sb = (Inr (pre @ c # post), s1)"
    and ok: "all_answer (container_stop rt) None pre s1 = Some s2"
    and fail: "container_stop rt c s2 = (Some e, s3)"
  shows "run_docker_container rt img name protocol ports volumes clean environment (s0, tr) =
           (if e = NotFound then
              convert_and_run rt img ''tcp''
                ((default_params name)\<lparr>d_ports := ports, d_volumes := volumes\<rparr>) clean
                (s3, tr @ [ImportModule, FromEnv, ListRunning img] @ map Stop pre @ [Stop c])
            else if e = APIError then
              (Returned DrainError,
               (s3, tr @ [ImportModule, FromEnv, ListRunning img] @ map Stop pre @ [Stop c]))
            else
              (Raised (DockerException e),
               (s3, tr @ [ImportModule, FromEnv, ListRunning img] @ map Stop pre @ [Stop c])))"
proof -
  have a: "import_docker rt (s0, tr) = (Next True, (sa, tr @ [ImportModule]))"
    using imp by (simp add: import_docker_def call_def)
  have b: "docker_from_env rt True (sa, tr @ [ImportModule]) =
             (Next (), (sb, tr @ [ImportModule, FromEnv]))"
    using env by (simp add: docker_from_env_def call_def)
  have l: "call (ListRunning img) (containers_list rt img) (sb, tr @ [ImportModule, FromEnv]) =
             (Inr (pre @ c # post), (s1, tr @ [ImportModule, FromEnv, ListRunning img]))"
    using lst by (simp add: call_def)
  have "stop_all rt (pre @ c # post) (s1, tr @ [ImportModule, FromEnv, ListRunning img]) =
          stop_all rt (c # post)
            (s2, (tr @ [ImportModule, FromEnv, ListRunning img]) @ map Stop pre)"
    using stop_all_prefix [OF ok] .
  also have "\<dots> =
      (Some e, (s3, ((tr @ [ImportModule, FromEnv, ListRunning img]) @ map Stop pre) @ [Stop c]))"
    using stop_all_at_failure [OF fail] .
  finally have st:
    "stop_all rt (pre @ c # post) (s1, tr @ [ImportModule, FromEnv, ListRunning img]) =
       (Some e, (s3, tr @ [ImportModule, FromEnv, ListRunning img] @ map Stop pre @ [Stop c]))"
    by simp
  have tried: "drain_try rt img (sb, tr @ [ImportModule, FromEnv]) =
       (Some e, (s3, tr @ [ImportModule, FromEnv, ListRunning img] @ map Stop pre @ [Stop c]))"
    using l st by (simp add: drain_try_def)
  have dr: "drain rt img (sb, tr @ [ImportModule, FromEnv]) =
      (if e = NotFound then
         (Next (), (s3, tr @ [ImportModule, FromEnv, ListRunning img] @ map Stop pre @ [Stop c]))
       else if e = APIError then
         (Exit (Returned DrainError),
          (s3, tr @ [ImportModule, FromEnv, ListRunning img] @ map Stop pre @ [Stop c]))
       else
         (Exit (Raised (DockerException e)),
          (s3, tr @ [ImportModule, FromEnv, ListRunning img] @ map Stop pre @ [Stop c])))"
    using tried by (simp add: drain_def is_NotFound_def is_APIError_def)
  have ph: "drain_phase rt img (s0, tr) = drain rt img (sb, tr @ [ImportModule, FromEnv])"
    using a b by (simp add: drain_phase_def)
  show ?thesis
    using ph dr
    by (simp add: run_docker_container_after_drain run_docker_container_drain_exit)
qed

theorem drain_ends_at_first_failed_stop_witness:
  "run_docker_container stuck_runtime ''nginx'' (Some ''web'') ''tcp'' PyNone PyNone True
     (PyList []) crowded =
   (Returned DrainError,
    (\<lparr>running = [(fake_container 1, ''nginx''), (fake_container 2, ''nginx'')],
      started = 3\<rparr>,
     [ImportModule, FromEnv, ListRunning ''nginx'', Stop (fake_container 0),
      Stop (fake_container 1)]))"
proof -
  have a: "import_module stuck_runtime (fst crowded) = (Imported, fst crowded)"
    by (simp add: stuck_runtime_def fake_runtime_def)
  have b: "from_env stuck_runtime (fst crowded) = (None, fst crowded)"
    by (simp add: stuck_runtime_def fake_runtime_def)
  have c: "containers_list stuck_runtime ''nginx'' (fst crowded) =
      (Inr ([fake_container 0] @ fake_container 1 # [fake_container 2]), fst crowded)"
    by code_simp
  have d: "all_answer (container_stop stuck_runtime) None [fake_container 0] (fst crowded) =
      Some \<lparr>running = [(fake_container 1, ''nginx''), (fake_container 2, ''nginx'')],
            started = 3\<rparr>"
    by code_simp
  have e: "container_stop stuck_runtime (fake_container 1)
        \<lparr>running = [(fake_container 1, ''nginx''), (fake_container 2, ''nginx'')],
         started = 3\<rparr> =
      (Some APIError,
       \<lparr>running = [(fake_container 1, ''nginx''), (fake_container 2, ''nginx'')],
        started = 3\<rparr>)"
    by code_simp
  have w: "crowded = (fst crowded, [])"
    by (simp add: crowded_def)
  from drain_ends_at_first_failed_stop [OF a b c d e, of "Some ''web''" "''tcp''" PyNone
      PyNone True "PyList []" "[]"] w
  show ?thesis by simp
qed

section \<open>Malformed strings: C7\<close>

lemma convert_and_run_volume_exit:
  "convert_ports protocol (d_ports params) = Inr pd \<Longrightarrow> d_volumes params = PyList vs \<Longrightarrow>
   volumes_loop rt clean vs [] w = (Exit x, w2) \<Longrightarrow>
     convert_and_run rt img protocol params clean w = (x, w2)"
  by (simp add: convert_and_run_def convert_volumes_def py_iter_def)

lemma volume_no_colon_unchecked:
  assumes "list_all (\<lambda>v. CHR '':'' \<in> set v) good" "CHR '':'' \<notin> set v"
  shows "volumes_loop rt False (good @ v # rest) d w = (Exit (Raised IndexError), w)"
proof -
  from volumes_loop_unchecked_prefix [OF assms(1)] obtain d' where
    "volumes_loop rt False (good @ v # rest) d w = volumes_loop rt False (v # rest) d' w"
    by blast
  then show ?thesis
    using volumes_loop_at_no_colon [OF assms(2)] by simp
qed

lemma volume_no_colon_checked:
  assumes "list_all (\<lambda>v. CHR '':'' \<in> set v) good" "CHR '':'' \<notin> set v"
    and "list_all (\<lambda>v. CHR 0x00 \<notin> set (takeWhile (\<lambda>c. c \<noteq> CHR '':'') v)) good"
    and "all_answer (test_d rt) ExitZero (map (takeWhile (\<lambda>c. c \<noteq> CHR '':'')) good) s = Some s'"
  shows "volumes_loop rt True (good @ v # rest) d (s, tr) =
           (Exit (Raised IndexError),
            (s', tr @ map TestDir (map (takeWhile (\<lambda>c. c \<noteq> CHR '':'')) good)))"
proof -
  from volumes_loop_checked_prefix [OF assms(1,3,4)] obtain d' where
    "volumes_loop rt True (good @ v # rest) d (s, tr) =
       volumes_loop rt True (v # rest) d'
         (s', tr @ map TestDir (map (takeWhile (\<lambda>c. c \<noteq> CHR '':'')) good))"
    by blast
  then show ?thesis
    using volumes_loop_at_no_colon [OF assms(2)] by simp
qed

text \<open>
  Two containers are running and the port string is \<^verbatim>\<open>8080\<close>: the containers are
  listed, stopped and pruned, and only then \<open>IndexError\<close> is raised.
\<close>

theorem drain_runs_before_strings_are_read:
  "run_docker_container healthy_runtime ''nginx'' None ''tcp'' (PyList [''8080''])
     (PyList []) False (PyList []) busy =
   (Raised IndexError,
    (\<lparr>running = [], started = 2\<rparr>,
     [ImportModule, FromEnv, ListRunning ''nginx'', Stop (fake_container 0),
      Stop (fake_container 1), Prune]))"
  by code_simp

text \<open>
  C7, as the code has it. When a port string or a volume string has no \<^verbatim>\<open>:\<close>, the
  call never pulls and never runs. The runtime is contacted all the same: the strings are
  read only after the drain phase, whose calls include \<^verbatim>\<open>list\<close>. Once the drain phase
  is through,
  \<^item> a port string without \<^verbatim>\<open>:\<close> surfaces as \<open>IndexError\<close> in the world the drain
    phase left;
  \<^item> with port strings that all contain \<^verbatim>\<open>:\<close>, and volume strings \<open>good\<close> that all
    contain \<^verbatim>\<open>:\<close> followed by a volume string \<open>v\<close> without one, \<open>v\<close> surfaces as
    \<open>IndexError\<close>: in the world the drain phase left when \<^verbatim>\<open>clean_host_volume_dirs\<close> is
    not set, and, when it is set, after a \<^verbatim>\<open>test -d\<close> call for each volume of \<open>good\<close>,
    provided their host paths have no NUL and each of these checks succeeds.
\<close>

theorem malformed_string_surfaces_after_drain:
  assumes bad: "(ports = PyList ps \<and> \<not> list_all (\<lambda>p. CHR '':'' \<in> set p) ps)
              \<or> (volumes = PyList vs \<and> \<not> list_all (\<lambda>v. CHR '':'' \<in> set v) vs)"
    and result:
      "run_docker_container rt img name protocol ports volumes clean environment w = (out, w')"
  shows "pulls (snd w') = pulls (snd w) \<and> runs (snd w') = runs (snd w)
       \<and> (\<forall>s1 tr1. drain_phase rt img w = (Next (), (s1, tr1)) \<longrightarrow>
            (\<exists>evs. tr1 = snd w @ evs \<and> ListRunning img \<in> set evs)
            \<and> (ports = PyList ps \<and> \<not> list_all (\<lambda>p. CHR '':'' \<in> set p) ps \<longrightarrow>
                 out = Raised IndexError \<and> w' = (s1, tr1))
            \<and> (\<forall>qs good v rest.
                  ports = PyList qs \<and> list_all (\<lambda>p. CHR '':'' \<in> set p) qs
                  \<and> volumes = PyList (good @ v # rest)
                  \<and> list_all (\<lambda>g. CHR '':'' \<in> set g) good \<and> CHR '':'' \<notin> set v \<longrightarrow>
                    (\<not> clean \<longrightarrow> out = Raised IndexError \<and> w' = (s1, tr1))
                  \<and> (\<forall>s2. clean
                        \<and> list_all (\<lambda>g. CHR 0x00 \<notin> set (takeWhile (\<lambda>c. c \<noteq> CHR '':'') g)) good
                        \<and> all_answer (test_d rt) ExitZero
                            (map (takeWhile (\<lambda>c. c \<noteq> CHR '':'')) good) s1 = Some s2 \<longrightarrow>
                        out = Raised IndexError
                        \<and> w' = (s2, tr1 @ map TestDir
                                   (map (takeWhile (\<lambda>c. c \<noteq> CHR '':'')) good)))))"
proof -
  obtain r w1 where ph: "drain_phase rt img w = (r, w1)"
    by (cases "drain_phase rt img w")
  note q = drain_phase_quiet [OF ph]
  show ?thesis
  proof (cases r)
    case (Exit x)
    with ph result q show ?thesis
      by (simp add: run_docker_container_drain_exit)
  next
    case (Next u)
    obtain s1 tr1 where w1: "w1 = (s1, tr1)" by (cases w1)
    with ph Next have ph': "drain_phase rt img w = (Next (), (s1, tr1))" by simp
    have car: "convert_and_run rt img ''tcp''
         ((default_params name)\<lparr>d_ports := ports, d_volumes := volumes\<rparr>) clean (s1, tr1)
           = (out, w')"
      using result run_docker_container_after_drain [OF ph'] by simp
    have lists: "\<exists>evs. tr1 = snd w @ evs \<and> ListRunning img \<in> set evs"
      using drain_phase_lists [OF ph'] by simp
    have quiet: "pulls (snd w') = pulls (snd w) \<and> runs (snd w') = runs (snd w)"
    proof (cases "convert_ports ''tcp'' ports")
      case (Inl e)
      with car q w1 show ?thesis
        by (simp add: convert_and_run_def default_params_def)
    next
      case (Inr pd)
      have "\<not> (ports = PyList ps \<and> \<not> list_all (\<lambda>p. CHR '':'' \<in> set p) ps)"
      proof
        assume "ports = PyList ps \<and> \<not> list_all (\<lambda>p. CHR '':'' \<in> set p) ps"
        then have "convert_ports ''tcp'' ports = Inl IndexError"
          by (simp add: convert_ports_def py_iter_def ports_loop_bad)
        with Inr show False by simp
      qed
      with bad have v: "volumes = PyList vs" "\<not> list_all (\<lambda>v. CHR '':'' \<in> set v) vs"
        by auto
      obtain r2 w2 where vl: "volumes_loop rt clean vs [] (s1, tr1) = (r2, w2)"
        by (cases "volumes_loop rt clean vs [] (s1, tr1)")
      from volumes_loop_no_colon [OF v(2) vl] obtain x where x: "r2 = Exit x" by blast
      have "convert_and_run rt img ''tcp''
         ((default_params name)\<lparr>d_ports := ports, d_volumes := volumes\<rparr>) clean (s1, tr1)
           = (x, w2)"
        using Inr v(1) vl x
        by (intro convert_and_run_volume_exit [where pd = pd and vs = vs])
          (simp_all add: default_params_def)
      with car have "w' = w2" by simp
      with volumes_loop_quiet [OF vl] q w1 show ?thesis by simp
    qed
    have p: "out = Raised IndexError \<and> w' = (s1, tr1)"
      if "ports = PyList ps" "\<not> list_all (\<lambda>p. CHR '':'' \<in> set p) ps"
    proof -
      from that have "convert_ports ''tcp'' ports = Inl IndexError"
        by (simp add: convert_ports_def py_iter_def ports_loop_bad)
      with car show ?thesis
        by (simp add: convert_and_run_def default_params_def)
    qed
    have v: "(\<not> clean \<longrightarrow> out = Raised IndexError \<and> w' = (s1, tr1))
           \<and> (\<forall>s2. clean
                \<and> list_all (\<lambda>g. CHR 0x00 \<notin> set (takeWhile (\<lambda>c. c \<noteq> CHR '':'') g)) good
                \<and> all_answer (test_d rt) ExitZero
                    (map (takeWhile (\<lambda>c. c \<noteq> CHR '':'')) good) s1 = Some s2 \<longrightarrow>
                out = Raised IndexError
                \<and> w' = (s2, tr1 @ map TestDir (map (takeWhile (\<lambda>c. c \<noteq> CHR '':'')) good)))"
      if qs: "ports = PyList qs" "list_all (\<lambda>p. CHR '':'' \<in> set p) qs"
        and vol: "volumes = PyList (good @ v # rest)"
        and good: "list_all (\<lambda>g. CHR '':'' \<in> set g) good" and bad_v: "CHR '':'' \<notin> set v"
      for qs good v rest
    proof -
      from ports_loop_ok [OF qs(2), of "''tcp''" "[]"] qs(1) obtain pd where
        pd: "convert_ports ''tcp'' ports = Inr pd"
        by (auto simp: convert_ports_def py_iter_def)
      have ex: "convert_and_run rt img ''tcp''
           ((default_params name)\<lparr>d_ports := ports, d_volumes := volumes\<rparr>) clean (s1, tr1)
             = (x, w2)"
        if "volumes_loop rt clean (good @ v # rest) [] (s1, tr1) = (Exit x, w2)" for x w2
        using pd vol that
        by (intro convert_and_run_volume_exit [where pd = pd and vs = "good @ v # rest"])
          (simp_all add: default_params_def)
      show ?thesis
      proof (cases clean)
        case False
        from ex [of "Raised IndexError" "(s1, tr1)"] False
          volume_no_colon_unchecked [OF good bad_v, of rt rest "[]" "(s1, tr1)"] car
        show ?thesis by simp
      next
        case True
        have "out = Raised IndexError
            \<and> w' = (s2, tr1 @ map TestDir (map (takeWhile (\<lambda>c. c \<noteq> CHR '':'')) good))"
          if "list_all (\<lambda>g. CHR 0x00 \<notin> set (takeWhile (\<lambda>c. c \<noteq> CHR '':'') g)) good"
            "all_answer (test_d rt) ExitZero
               (map (takeWhile (\<lambda>c. c \<noteq> CHR '':'')) good) s1 = Some s2" for s2
          using ex [of "Raised IndexError"
              "(s2, tr1 @ map TestDir (map (takeWhile (\<lambda>c. c \<noteq> CHR '':'')) good))"]
            True volume_no_colon_checked [OF good bad_v that, of rest "[]" tr1] car
          by simp
        with True show ?thesis by blast
      qed
    qed
    from p have p': "ports = PyList ps \<and> \<not> list_all (\<lambda>p. CHR '':'' \<in> set p) ps \<longrightarrow>
        out = Raised IndexError \<and> w' = (s1, tr1)"
      by blast
    from v have v': "\<forall>qs good v rest.
        ports = PyList qs \<and> list_all (\<lambda>p. CHR '':'' \<in> set p) qs
        \<and> volumes = PyList (good @ v # rest)
        \<and> list_all (\<lambda>g. CHR '':'' \<in> set g) good \<and> CHR '':'' \<notin> set v \<longrightarrow>
          (\<not> clean \<longrightarrow> out = Raised IndexError \<and> w' = (s1, tr1))
        \<and> (\<forall>s2. clean
              \<and> list_all (\<lambda>g. CHR 0x00 \<notin> set (takeWhile (\<lambda>c. c \<noteq> CHR '':'') g)) good
              \<and> all_answer (test_d rt) ExitZero
                  (map (takeWhile (\<lambda>c. c \<noteq> CHR '':'')) good) s1 = Some s2 \<longrightarrow>
              out = Raised IndexError
              \<and> w' = (s2, tr1 @ map TestDir (map (takeWhile (\<lambda>c. c \<noteq> CHR '':'')) good)))"
      by (intro allI impI) (elim conjE, rule v)
    have after: "(\<exists>evs. a = snd w @ evs \<and> ListRunning img \<in> set evs)
            \<and> (ports = PyList ps \<and> \<not> list_all (\<lambda>p. CHR '':'' \<in> set p) ps \<longrightarrow>
                 out = Raised IndexError \<and> w' = (b, a))
            \<and> (\<forall>qs good v rest.
                  ports = PyList qs \<and> list_all (\<lambda>p. CHR '':'' \<in> set p) qs
                  \<and> volumes = PyList (good @ v # rest)
                  \<and> list_all (\<lambda>g. CHR '':'' \<in> set g) good \<and> CHR '':'' \<notin> set v \<longrightarrow>
                    (\<not> clean \<longrightarrow> out = Raised IndexError \<and> w' = (b, a))
                  \<and> (\<forall>s2. clean
                        \<and> list_all (\<lambda>g. CHR 0x00 \<notin> set (takeWhile (\<lambda>c. c \<noteq> CHR '':'') g)) good
                        \<and> all_answer (test_d rt) ExitZero
                            (map (takeWhile (\<lambda>c. c \<noteq> CHR '':'')) good) b = Some s2 \<longrightarrow>
                        out = Raised IndexError
                        \<and> w' = (s2, a @ map TestDir
                                   (map (takeWhile (\<lambda>c. c \<noteq> CHR '':'')) good))))"
      if "drain_phase rt img w = (Next (), (b, a))" for b a
    proof -
      from that ph' have "b = s1" "a = tr1" by simp_all
      with lists p' v' show ?thesis by (simp only:) 
    qed
    show ?thesis
      apply (rule conjI)
       apply (rule conjunct1 [OF quiet])
      apply (rule conjI)
       apply (rule conjunct2 [OF quiet])
      apply (intro allI impI)
      apply (rule after)
      apply assumption
      done
  qed
qed

theorem malformed_string_surfaces_after_drain_witness:
  "run_docker_container healthy_runtime ''nginx'' None ''tcp'' (PyList [''80:80''])
      (PyList [''/data:/d'', ''bad'']) True (PyList []) idle =
     (Raised IndexError,
      (\<lparr>running = [], started = 0\<rparr>,
       [ImportModule, FromEnv, ListRunning ''nginx'', TestDir ''/data'']))
   \<and> pulls (snd (snd (run_docker_container healthy_runtime ''nginx'' None ''tcp''
         (PyList [''80:80'']) (PyList [''/data:/d'', ''bad'']) True (PyList []) idle))) = []
   \<and> runs (snd (snd (run_docker_container healthy_runtime ''nginx'' None ''tcp''
         (PyList [''80:80'']) (PyList [''/data:/d'', ''bad'']) True (PyList []) idle))) = []"
proof -
  define R where "R = run_docker_container healthy_runtime ''nginx'' None ''tcp''
      (PyList [''80:80'']) (PyList [''/data:/d'', ''bad'']) True (PyList []) idle"
  have b: "(PyList [''80:80''] = PyList [] \<and> \<not> list_all (\<lambda>p. CHR '':'' \<in> set p) [])
         \<or> (PyList [''/data:/d'', ''bad''] = PyList [''/data:/d'', ''bad'']
            \<and> \<not> list_all (\<lambda>v. CHR '':'' \<in> set v) [''/data:/d'', ''bad''])"
    by simp
  have r: "run_docker_container healthy_runtime ''nginx'' None ''tcp''
      (PyList [''80:80'']) (PyList [''/data:/d'', ''bad'']) True (PyList []) idle
        = (fst R, snd R)"
    by (simp add: R_def)
  have d: "drain_phase healthy_runtime ''nginx'' idle =
     (Next (), (\<lparr>running = [], started = 0\<rparr>, [ImportModule, FromEnv, ListRunning ''nginx'']))"
    by code_simp
  have h1: "PyList [''80:80''] = PyList [''80:80'']
      \<and> list_all (\<lambda>p. CHR '':'' \<in> set p) [''80:80'']
      \<and> PyList [''/data:/d'', ''bad''] = PyList ([''/data:/d''] @ ''bad'' # [])
      \<and> list_all (\<lambda>g. CHR '':'' \<in> set g) [''/data:/d''] \<and> CHR '':'' \<notin> set ''bad''"
    by simp
  have h2: "True
      \<and> list_all (\<lambda>g. CHR 0x00 \<notin> set (takeWhile (\<lambda>c. c \<noteq> CHR '':'') g)) [''/data:/d'']
      \<and> all_answer (test_d healthy_runtime) ExitZero
          (map (takeWhile (\<lambda>c. c \<noteq> CHR '':'')) [''/data:/d''])
          \<lparr>running = [], started = 0\<rparr> = Some \<lparr>running = [], started = 0\<rparr>"
    by (simp add: healthy_runtime_def fake_runtime_def)
  note t = malformed_string_surfaces_after_drain [OF b r]
  note after = t [THEN conjunct2, THEN conjunct2, rule_format, OF d]
  note vol = after [THEN conjunct2, THEN conjunct2, rule_format, OF h1]
  note checked = vol [THEN conjunct2, rule_format, OF h2]
  have i: "snd idle = []" by (simp add: idle_def)
  from checked have res: "R =
     (Raised IndexError,
      (\<lparr>running = [], started = 0\<rparr>,
       [ImportModule, FromEnv, ListRunning ''nginx'', TestDir ''/data'']))"
    by (cases R) simp
  from t have "pulls (snd (snd R)) = pulls (snd idle) \<and> runs (snd (snd R)) = runs (snd idle)"
    by blast
  with res i show ?thesis
    unfolding R_def [symmetric] by simp
qed

section \<open>Missing volume directories: C8\<close>

text \<open>
  A direct call with \<^verbatim>\<open>clean_host_volume_dirs\<close> set does what the docstring says. The
  drain phase is through, the port strings all contain \<^verbatim>\<open>:\<close>, the volumes of \<open>good\<close>
  are well formed and pass their \<^verbatim>\<open>test -d\<close>, one after the other, and the next volume
  \<open>v\<close>, well formed too, fails it: the call ends at the \<^verbatim>\<open>return\<close> of line 113, and the
  only calls after the drain phase are the directory checks.
\<close>

lemma direct_call_ends_at_failed_directory_check:
  assumes drained: "drain_phase rt img w = (Next (), (s1, tr1))"
    and ports: "ports = PyList qs" "list_all (\<lambda>p. CHR '':'' \<in> set p) qs"
    and good: "list_all (\<lambda>g. CHR '':'' \<in> set g) good"
      "list_all (\<lambda>g. CHR 0x00 \<notin> set (takeWhile (\<lambda>c. c \<noteq> CHR '':'') g)) good"
      "all_answer (test_d rt) ExitZero (map (takeWhile (\<lambda>c. c \<noteq> CHR '':'')) good) s1 = Some s2"
    and v: "CHR '':'' \<in> set v" "CHR 0x00 \<notin> set (takeWhile (\<lambda>c. c \<noteq> CHR '':'') v)"
      "test_d rt (takeWhile (\<lambda>c. c \<noteq> CHR '':'') v) s2 = (CalledProcessError, s3)"
  shows "run_docker_container rt img name protocol ports (PyList (good @ v # rest)) True
           environment w =
         (Returned VolumeError,
          (s3, tr1 @ map TestDir (map (takeWhile (\<lambda>c. c \<noteq> CHR '':'')) (good @ [v]))))"
proof -
  from ports_loop_ok [OF ports(2), of "''tcp''" "[]"] ports(1) obtain pd where
    pd: "convert_ports ''tcp'' ports = Inr pd"
    by (auto simp: convert_ports_def py_iter_def)
  from volumes_loop_checked_prefix [OF good, of "v # rest" "[]" tr1] obtain d' where
    "volumes_loop rt True (good @ v # rest) [] (s1, tr1) =
       volumes_loop rt True (v # rest) d'
         (s2, tr1 @ map TestDir (map (takeWhile (\<lambda>c. c \<noteq> CHR '':'')) good))"
    by blast
  with volumes_loop_at_failed_check [OF v] have
    "volumes_loop rt True (good @ v # rest) [] (s1, tr1) =
       (Exit (Returned VolumeError),
        (s3, tr1 @ map TestDir (map (takeWhile (\<lambda>c. c \<noteq> CHR '':'')) (good @ [v]))))"
    by simp
  with pd have "convert_and_run rt img ''tcp''
       ((default_params name)\<lparr>d_ports := ports, d_volumes := PyList (good @ v # rest)\<rparr>)
       True (s1, tr1) =
     (Returned VolumeError,
      (s3, tr1 @ map TestDir (map (takeWhile (\<lambda>c. c \<noteq> CHR '':'')) (good @ [v]))))"
    by (intro convert_and_run_volume_exit [where pd = pd and vs = "good @ v # rest"])
      (simp_all add: default_params_def)
  then show ?thesis
    by (simp add: run_docker_container_after_drain [OF drained])
qed

text \<open>
  C8, on the code. From the command line the check is never what stands between a
  missing directory and the container. With \<^verbatim>\<open>--clean_host_volume_dirs True\<close> and the
  volume \<^verbatim>\<open>/missing:/m\<close>, where \<^verbatim>\<open>/missing\<close> is not a directory, lines 163 and 165
  do not pass the flag on: no \<^verbatim>\<open>test -d\<close> is made and the container is run, twice,
  with \<^verbatim>\<open>/missing\<close> mounted. With the keyword given as the unknown argument
  \<^verbatim>\<open>clean_host_volume_dirs=1\<close>, the call of line 163 makes the check and returns at line
  113, and the call of line 165, which has no keyword, runs the container.
\<close>

theorem missing_directory_is_mounted_from_command_line:
  "main healthy_runtime
     (nginx_args\<lparr>a_volume := PyList [''/missing:/m''], a_clean_host_volume_dirs := True\<rparr>)
     [] idle =
   (Returned (Running ''cc''),
    (\<lparr>running = [(fake_container 1, ''nginx'')], started = 2\<rparr>,
     [ImportModule, FromEnv, ListRunning ''nginx'', Pull ''nginx'',
      Run ''nginx''
        \<lparr>p_name = None, p_ports = [(''80/tcp'', ''8080'')],
         p_volumes = [(''/missing'', \<lparr>vb_bind = ''/m'', vb_mode = ''rw''\<rparr>)],
         p_environment = []\<rparr>,
      ImportModule, FromEnv, ListRunning ''nginx'', Stop (fake_container 0), Prune,
      Pull ''nginx'',
      Run ''nginx''
        \<lparr>p_name = None, p_ports = [(''80/tcp'', ''8080'')],
         p_volumes = [(''/missing'', \<lparr>vb_bind = ''/m'', vb_mode = ''rw''\<rparr>)],
         p_environment = []\<rparr>]))
   \<and> main healthy_runtime (nginx_args\<lparr>a_volume := PyList [''/missing:/m'']\<rparr>)
       [''clean_host_volume_dirs=1''] idle =
     (Returned (Running ''c''),
      (\<lparr>running = [(fake_container 0, ''nginx'')], started = 1\<rparr>,
       [ImportModule, FromEnv, ListRunning ''nginx'', TestDir ''/missing'',
        ImportModule, FromEnv, ListRunning ''nginx'', Pull ''nginx'',
        Run ''nginx''
          \<lparr>p_name = None, p_ports = [(''80/tcp'', ''8080'')],
           p_volumes = [(''/missing'', \<lparr>vb_bind = ''/m'', vb_mode = ''rw''\<rparr>)],
           p_environment = []\<rparr>]))"
  by code_simp

end
